theory Spec2Isabelle
  imports Complex_Main "HOL-Library.Product_Lexorder"
begin

section \<open>Python primitives used by the render farm\<close>

text \<open>
  The coordinator is Python. Strings are modelled as \<open>string\<close> (ASCII), Python integers
  as \<open>int\<close>, and every exception the modelled code can raise is a value of \<open>py_error\<close>
  returned on the left of a sum.
\<close>

datatype py_error = ValueError | IndexError

text \<open>\<open>s.split(sep)\<close> for a one-character separator: never returns the empty list.\<close>

fun split_on :: "char \<Rightarrow> string \<Rightarrow> string list" where
  "split_on sep [] = [[]]"
| "split_on sep (c # cs) =
     (if c = sep then [] # split_on sep cs
      else (case split_on sep cs of
              [] \<Rightarrow> [[c]]
            | w # ws \<Rightarrow> (c # w) # ws))"

text \<open>The ASCII characters for which \<open>str.isspace\<close> holds; \<open>str.strip()\<close> removes them at both ends.\<close>

definition py_isspace :: "char \<Rightarrow> bool" where
  "py_isspace c = (let n = (of_char c :: nat) in (9 \<le> n \<and> n \<le> 13) \<or> (28 \<le> n \<and> n \<le> 32))"

definition strip :: "string \<Rightarrow> string" where
  "strip s = rev (dropWhile py_isspace (rev (dropWhile py_isspace s)))"

definition is_digit :: "char \<Rightarrow> bool" where
  "is_digit c = (let n = (of_char c :: nat) in 48 \<le> n \<and> n \<le> 57)"

definition digit_val :: "char \<Rightarrow> nat" where
  "digit_val c = of_char c - 48"

text \<open>
  The digits of a Python integer literal as \<open>int()\<close> accepts them: decimal digits, with
  single underscores allowed between two digits.
\<close>

fun digits_acc :: "nat \<Rightarrow> string \<Rightarrow> nat option" where
  "digits_acc acc [] = Some acc"
| "digits_acc acc [c] = (if is_digit c then Some (acc * 10 + digit_val c) else None)"
| "digits_acc acc (c # d # cs) =
     (if c = CHR ''_'' then (if is_digit d then digits_acc acc (d # cs) else None)
      else if is_digit c then digits_acc (acc * 10 + digit_val c) (d # cs)
      else None)"

definition unsigned_literal :: "string \<Rightarrow> nat option" where
  "unsigned_literal s =
     (case s of [] \<Rightarrow> None | c # _ \<Rightarrow> if is_digit c then digits_acc 0 s else None)"

text \<open>\<open>int(s)\<close> on a string: surrounding whitespace, an optional sign, then the digits.\<close>

definition py_int :: "string \<Rightarrow> py_error + int" where
  "py_int s =
     (case strip s of
        [] \<Rightarrow> Inl ValueError
      | c # cs \<Rightarrow>
          if c = CHR ''-'' then
            (case unsigned_literal cs of None \<Rightarrow> Inl ValueError | Some n \<Rightarrow> Inr (- int n))
          else if c = CHR ''+'' then
            (case unsigned_literal cs of None \<Rightarrow> Inl ValueError | Some n \<Rightarrow> Inr (int n))
          else
            (case unsigned_literal (c # cs) of None \<Rightarrow> Inl ValueError | Some n \<Rightarrow> Inr (int n)))"

text \<open>\<open>str(n)\<close> for an integer: its decimal digits, with a minus sign when negative.\<close>

fun str_nat :: "nat \<Rightarrow> string" where
  "str_nat n = (if n < 10 then [''0123456789'' ! n] else str_nat (n div 10) @ [''0123456789'' ! (n mod 10)])"

definition str_int :: "int \<Rightarrow> string" where
  "str_int i = (if i < 0 then CHR ''-'' # str_nat (nat (- i)) else str_nat (nat i))"

section \<open>Batching: \<open>distributed_renderers.py\<close>\<close>

text \<open>
  \<open>parse_frame_range\<close>, lines 16 to 29. Each comma-separated part is stripped; a part
  containing \<open>-\<close> is split at every \<open>-\<close> and must give exactly two integers
  (\<open>start, end = map(int, part.split('-'))\<close>), any other shape raises \<open>ValueError\<close>.
\<close>

definition parse_part :: "string \<Rightarrow> py_error + int list" where
  "parse_part part0 =
     (let part = strip part0 in
      if CHR ''-'' \<in> set part then
        (case split_on CHR ''-'' part of
           [a, b] \<Rightarrow>
             (case py_int a of
                Inl e \<Rightarrow> Inl e
              | Inr start \<Rightarrow>
                  (case py_int b of
                     Inl e \<Rightarrow> Inl e
                   | Inr stop \<Rightarrow> Inr [start..stop]))
         | _ \<Rightarrow> Inl ValueError)
      else
        (case py_int part of Inl e \<Rightarrow> Inl e | Inr n \<Rightarrow> Inr [n]))"

fun parse_parts :: "string list \<Rightarrow> int list \<Rightarrow> py_error + int list" where
  "parse_parts [] frames = Inr frames"
| "parse_parts (p # ps) frames =
     (case parse_part p of
        Inl e \<Rightarrow> Inl e
      | Inr fs \<Rightarrow> parse_parts ps (frames @ fs))"

text \<open>
  \<open>sorted(list(set(frames)))\<close>: Python iterates a set in an order of its own choosing.
  \<open>set_listing frames ys\<close> says that \<open>ys\<close> is one such listing of the set of \<open>frames\<close>,
  and \<open>parse_frame_range_with listing\<close> is the function run by an interpreter whose
  \<open>list(set(...))\<close> is \<open>listing\<close>. \<open>parse_frame_range\<close> fixes the listing \<open>remdups\<close>.
\<close>

definition set_listing :: "int list \<Rightarrow> int list \<Rightarrow> bool" where
  "set_listing frames ys = (distinct ys \<and> set ys = set frames)"

definition parse_frame_range_with :: "(int list \<Rightarrow> int list) \<Rightarrow> string \<Rightarrow> py_error + int list" where
  "parse_frame_range_with listing frame_range_str =
     (case parse_parts (split_on CHR '','' frame_range_str) [] of
        Inl e \<Rightarrow> Inl e
      | Inr frames \<Rightarrow> Inr (sort (listing frames)))"

definition parse_frame_range :: "string \<Rightarrow> py_error + int list" where
  "parse_frame_range frame_range_str = parse_frame_range_with remdups frame_range_str"

text \<open>
  \<open>create_batches\<close>, lines 31 to 42. \<open>range(0, len(frames), batch_size)\<close> raises
  \<open>ValueError\<close> for a zero step and is empty for a negative one.
\<close>

definition py_range_step :: "nat \<Rightarrow> int \<Rightarrow> py_error + nat list" where
  "py_range_step n step =
     (if step = 0 then Inl ValueError
      else if step < 0 then Inr []
      else Inr (map (\<lambda>k. k * nat step) [0..<(n + nat step - 1) div nat step]))"

text \<open>\<open>frames[i:j]\<close> for \<open>0 \<le> i \<le> j\<close>.\<close>

definition slice :: "'a list \<Rightarrow> nat \<Rightarrow> nat \<Rightarrow> 'a list" where
  "slice xs i j = take (j - i) (drop i xs)"

fun batch_label :: "int list \<Rightarrow> py_error + string" where
  "batch_label [] = Inl IndexError"
| "batch_label [f] = Inr (str_int f)"
| "batch_label (f # fs) = Inr (str_int f @ ''-'' @ str_int (last fs))"

fun create_batches_loop :: "int list \<Rightarrow> nat \<Rightarrow> nat list \<Rightarrow> string list \<Rightarrow> py_error + string list" where
  "create_batches_loop frames batch_size [] batches = Inr batches"
| "create_batches_loop frames batch_size (i # is) batches =
     (case batch_label (slice frames i (i + batch_size)) of
        Inl e \<Rightarrow> Inl e
      | Inr frame_range \<Rightarrow> create_batches_loop frames batch_size is (batches @ [frame_range]))"

definition create_batches :: "int list \<Rightarrow> int \<Rightarrow> py_error + string list" where
  "create_batches frames batch_size =
     (case py_range_step (length frames) batch_size of
        Inl e \<Rightarrow> Inl e
      | Inr idxs \<Rightarrow> create_batches_loop frames (nat batch_size) idxs [])"

text \<open>
  The batching step of \<open>process_job\<close> (lines 65 to 71, the same in the three renderers):
  parse the job's frame range, then split it into batches.
\<close>

definition process_job_batches_with :: "(int list \<Rightarrow> int list) \<Rightarrow> string \<Rightarrow> int \<Rightarrow> py_error + string list" where
  "process_job_batches_with listing frame_range batch_size =
     (case parse_frame_range_with listing frame_range of
        Inl e \<Rightarrow> Inl e
      | Inr frames \<Rightarrow> create_batches frames batch_size)"

definition process_job_batches :: "string \<Rightarrow> int \<Rightarrow> py_error + string list" where
  "process_job_batches frame_range batch_size = process_job_batches_with remdups frame_range batch_size"

section \<open>The store and the ready cache: \<open>job_queue_manager.py\<close>\<close>

text \<open>
  The three status columns are text columns that only ever hold the six words below.
  Timestamps (\<open>CURRENT_TIMESTAMP\<close>, \<open>time.time()\<close>, \<open>datetime.now()\<close>) are seconds of
  one clock, passed to every operation as \<open>now\<close>. The rows keep the columns the
  modelled operations read or write; the worker table, the worker cache and the
  metrics blob (logged and cached, never read back) are left out.
\<close>

datatype status = Pending | Running | Paused | Cancelled | Completed | Failed

record job =
  job_id :: string
  job_status :: status
  job_progress :: real
  job_priority :: string
  job_data :: string
  job_created_at :: nat
  job_started_at :: "nat option"
  job_completed_at :: "nat option"

record sub_job =
  sj_id :: string
  sj_parent_job_id :: string
  sj_batch_number :: nat
  sj_frame_range :: string
  sj_status :: status
  sj_worker_id :: "string option"
  sj_started_at :: "nat option"
  sj_completed_at :: "nat option"
  sj_error_message :: "string option"

text \<open>An entry of \<open>job_cache\<close>, the dictionary built by \<open>_cache_pending_jobs\<close>.\<close>

record cached_job =
  c_sub_job_id :: string
  c_parent_job_id :: string
  c_frame_range :: string
  c_job_data :: string
  c_status :: status
  c_cached_at :: nat
  c_worker_id :: "string option"
  c_started_at :: "nat option"
  c_completed_at :: "nat option"
  c_error_message :: "string option"

text \<open>The dictionary \<open>get_next_job\<close> returns when it reads the database.\<close>

record descriptor =
  d_sub_job_id :: string
  d_parent_job_id :: string
  d_frame_range :: string
  d_job_data :: string

datatype pulled = FromCache cached_job | FromStore descriptor

fun pulled_sub_job_id :: "pulled \<Rightarrow> string" where
  "pulled_sub_job_id (FromCache c) = c_sub_job_id c"
| "pulled_sub_job_id (FromStore d) = d_sub_job_id d"

text \<open>
  The manager: the two tables in row order, and the \<open>OrderedDict\<close> \<open>job_cache\<close> as an
  association list in insertion order. \<open>cache_optimization_counter\<close> is \<open>None\<close> until
  the attribute is first set.
\<close>

record queue_manager =
  jobs :: "job list"
  sub_jobs :: "sub_job list"
  job_cache :: "(string \<times> cached_job) list"
  cache_enabled :: bool
  cache_optimization_counter :: "nat option"

definition cache_max_size :: nat where
  "cache_max_size = 1000"

definition init_manager :: queue_manager where
  "init_manager = \<lparr>jobs = [], sub_jobs = [], job_cache = [], cache_enabled = True,
     cache_optimization_counter = None\<rparr>"

subsection \<open>Submission\<close>

definition py_lower :: "string \<Rightarrow> string" where
  "py_lower s = map (\<lambda>c. let n = (of_char c :: nat) in
                       if 65 \<le> n \<and> n \<le> 90 then char_of (n + 32) else c) s"

text \<open>
  \<open>submit_job\<close>, lines 81 to 103; \<open>new_id\<close> is the fresh \<open>uuid4\<close>, \<open>prio\<close> the payload's
  \<open>priority\<close> if it has one.
\<close>

definition submit_job :: "string \<Rightarrow> string \<Rightarrow> string option \<Rightarrow> nat \<Rightarrow> queue_manager \<Rightarrow> queue_manager" where
  "submit_job new_id payload prio now s =
     s\<lparr>jobs := jobs s @
         [\<lparr>job_id = new_id, job_status = Pending, job_progress = 0,
           job_priority = py_lower (case prio of None \<Rightarrow> ''normal'' | Some p \<Rightarrow> p),
           job_data = payload, job_created_at = now,
           job_started_at = None, job_completed_at = None\<rparr>]\<rparr>"

text \<open>\<open>create_sub_jobs\<close>, \<open>distributed_renderers.py\<close> lines 44 to 57; ids are \<open>f"{job_id}_batch_{i+1:03d}"\<close>.\<close>

definition pad3 :: "nat \<Rightarrow> string" where
  "pad3 n = replicate (3 - length (str_nat n)) CHR ''0'' @ str_nat n"

definition new_sub_job :: "string \<Rightarrow> nat \<Rightarrow> string \<Rightarrow> sub_job" where
  "new_sub_job parent i batch =
     \<lparr>sj_id = parent @ ''_batch_'' @ pad3 (i + 1), sj_parent_job_id = parent,
      sj_batch_number = i + 1, sj_frame_range = batch, sj_status = Pending,
      sj_worker_id = None, sj_started_at = None, sj_completed_at = None,
      sj_error_message = None\<rparr>"

definition create_sub_jobs :: "string \<Rightarrow> string list \<Rightarrow> queue_manager \<Rightarrow> queue_manager" where
  "create_sub_jobs parent batches s =
     s\<lparr>sub_jobs := sub_jobs s @ map (\<lambda>(i, batch). new_sub_job parent i batch) (enumerate 0 batches)\<rparr>"

subsection \<open>Pulling the next batch\<close>

definition priority_rank :: "string \<Rightarrow> nat" where
  "priority_rank p =
     (if p = ''critical'' then 1
      else if p = ''high'' then 2
      else if p = ''normal'' then 3
      else if p = ''low'' then 4
      else 5)"

type_synonym candidate = "(nat \<times> nat) \<times> descriptor"

text \<open>
  The query of lines 149 to 164: the join of the pending sub-jobs with their jobs, each
  row with its \<open>ORDER BY\<close> key (priority rank, then \<open>created_at\<close>). The query names no
  further key; rows with equal keys are taken in row order (a stable sort).
\<close>

definition pending_candidates :: "queue_manager \<Rightarrow> candidate list" where
  "pending_candidates s =
     concat (map (\<lambda>sj.
        map (\<lambda>j. ((priority_rank (job_priority j), job_created_at j),
                  \<lparr>d_sub_job_id = sj_id sj, d_parent_job_id = sj_parent_job_id sj,
                   d_frame_range = sj_frame_range sj, d_job_data = job_data j\<rparr>))
            (filter (\<lambda>j. job_id j = sj_parent_job_id sj) (jobs s)))
        (filter (\<lambda>sj. sj_status sj = Pending) (sub_jobs s)))"

definition select_pending :: "queue_manager \<Rightarrow> descriptor list" where
  "select_pending s = take 5 (map snd (sort_key fst (pending_candidates s)))"

text \<open>\<open>_get_job_from_cache\<close>, lines 204 to 222: the first cached entry still \<open>pending\<close> is
  moved to the end of the dictionary, marked running there, and returned. Only the
  dictionary is written.\<close>

definition get_job_from_cache :: "string \<Rightarrow> nat \<Rightarrow> (string \<times> cached_job) list \<Rightarrow>
    (cached_job \<times> (string \<times> cached_job) list) option" where
  "get_job_from_cache worker_id now cache =
     (case find (\<lambda>(k, v). c_status v = Pending) cache of
        None \<Rightarrow> None
      | Some (k, v) \<Rightarrow>
          (let v' = v\<lparr>c_status := Running, c_worker_id := Some worker_id, c_started_at := Some now\<rparr>
           in Some (v', filter (\<lambda>(k', _). k' \<noteq> k) cache @ [(k, v')])))"

text \<open>\<open>self.job_cache[key] = value\<close>: an existing key keeps its place.\<close>

definition od_set :: "string \<Rightarrow> cached_job \<Rightarrow> (string \<times> cached_job) list \<Rightarrow> (string \<times> cached_job) list" where
  "od_set k v cache =
     (if k \<in> set (map fst cache) then map (\<lambda>(k', v'). if k' = k then (k', v) else (k', v')) cache
      else cache @ [(k, v)])"

text \<open>\<open>_cache_pending_jobs\<close>, lines 224 to 248.\<close>

fun cache_pending_jobs :: "descriptor list \<Rightarrow> nat \<Rightarrow> (string \<times> cached_job) list \<Rightarrow> (string \<times> cached_job) list" where
  "cache_pending_jobs [] now cache = cache"
| "cache_pending_jobs (r # rs) now cache =
     (let cached = \<lparr>c_sub_job_id = d_sub_job_id r, c_parent_job_id = d_parent_job_id r,
                    c_frame_range = d_frame_range r, c_job_data = d_job_data r,
                    c_status = Pending, c_cached_at = now, c_worker_id = None,
                    c_started_at = None, c_completed_at = None, c_error_message = None\<rparr>;
          cache1 = (if length cache \<ge> cache_max_size then tl cache else cache)
      in cache_pending_jobs rs now (od_set (d_sub_job_id r) cached cache1))"

text \<open>\<open>get_next_job\<close>, lines 134 to 202.\<close>

definition get_next_job :: "string \<Rightarrow> nat \<Rightarrow> queue_manager \<Rightarrow> pulled option \<times> queue_manager" where
  "get_next_job worker_id now s =
     (case (if cache_enabled s then get_job_from_cache worker_id now (job_cache s) else None) of
        Some (cached, cache') \<Rightarrow> (Some (FromCache cached), s\<lparr>job_cache := cache'\<rparr>)
      | None \<Rightarrow>
          (case select_pending s of
             [] \<Rightarrow> (None, s)
           | result # rest \<Rightarrow>
               (let cache' = (if cache_enabled s \<and> rest \<noteq> []
                              then cache_pending_jobs (take 10 rest) now (job_cache s)
                              else job_cache s);
                    sub_jobs' = map (\<lambda>r. if sj_id r = d_sub_job_id result
                                           then r\<lparr>sj_status := Running, sj_worker_id := Some worker_id,
                                                  sj_started_at := Some now\<rparr>
                                           else r) (sub_jobs s);
                    jobs' = map (\<lambda>j. if job_id j = d_parent_job_id result \<and> job_status j = Pending
                                       then j\<lparr>job_status := Running, job_started_at := Some now\<rparr>
                                       else j) (jobs s)
                in (Some (FromStore result),
                    s\<lparr>jobs := jobs', sub_jobs := sub_jobs', job_cache := cache'\<rparr>))))"

subsection \<open>Reporting a batch\<close>

text \<open>\<open>optimize_cache\<close>, lines 576 to 599 (the job cache; entries older than 300 seconds go).\<close>

definition optimize_cache :: "nat \<Rightarrow> queue_manager \<Rightarrow> queue_manager" where
  "optimize_cache now s =
     (if \<not> cache_enabled s then s
      else s\<lparr>job_cache := filter (\<lambda>(k, v). \<not> (int now - int (c_cached_at v) > 300)) (job_cache s)\<rparr>)"

definition count_total :: "string \<Rightarrow> sub_job list \<Rightarrow> nat" where
  "count_total parent rows = length (filter (\<lambda>x. sj_parent_job_id x = parent) rows)"

definition count_completed :: "string \<Rightarrow> sub_job list \<Rightarrow> nat" where
  "count_completed parent rows =
     length (filter (\<lambda>x. sj_parent_job_id x = parent \<and> sj_status x = Completed) rows)"

text \<open>Line 293: \<open>progress = (completed / total) * 100 if total > 0 else 0\<close>, computed here
  in the reals (Python rounds each operation to a double).\<close>

definition progress_of :: "nat \<Rightarrow> nat \<Rightarrow> real" where
  "progress_of n_completed n_total =
     (if n_total > 0 then (real n_completed / real n_total) * 100 else 0)"

definition set_sub_job_status :: "string \<Rightarrow> status \<Rightarrow> string option \<Rightarrow> nat \<Rightarrow> sub_job list \<Rightarrow> sub_job list" where
  "set_sub_job_status sub_job_id st error_message now rows =
     map (\<lambda>r. if sj_id r = sub_job_id
              then r\<lparr>sj_status := st, sj_completed_at := Some now, sj_error_message := error_message\<rparr>
              else r) rows"

definition set_job_progress :: "string \<Rightarrow> real \<Rightarrow> job list \<Rightarrow> job list" where
  "set_job_progress parent p js = map (\<lambda>j. if job_id j = parent then j\<lparr>job_progress := p\<rparr> else j) js"

definition mark_job_completed :: "string \<Rightarrow> nat \<Rightarrow> job list \<Rightarrow> job list" where
  "mark_job_completed parent now js =
     map (\<lambda>j. if job_id j = parent then j\<lparr>job_status := Completed, job_completed_at := Some now\<rparr> else j) js"

definition complete_in_cache :: "string \<Rightarrow> status \<Rightarrow> string option \<Rightarrow> nat \<Rightarrow> queue_manager \<Rightarrow> (string \<times> cached_job) list" where
  "complete_in_cache sub_job_id st error_message now s =
     (if cache_enabled s \<and> sub_job_id \<in> set (map fst (job_cache s))
      then map (\<lambda>(k, v). if k = sub_job_id
                          then (k, v\<lparr>c_status := st, c_completed_at := Some now,
                                    c_error_message := error_message\<rparr>)
                          else (k, v)) (job_cache s)
      else job_cache s)"

text \<open>
  \<open>complete_sub_job\<close>, lines 250 to 332. An unknown id leaves the tables as they are
  (the connection is closed without a commit); the cache has been written by then.
\<close>

definition complete_sub_job :: "string \<Rightarrow> bool \<Rightarrow> string option \<Rightarrow> nat \<Rightarrow> queue_manager \<Rightarrow> queue_manager" where
  "complete_sub_job sub_job_id success error_message now s =
     (let st = (if success then Completed else Failed);
          s1 = s\<lparr>job_cache := complete_in_cache sub_job_id st error_message now s\<rparr>;
          rows = set_sub_job_status sub_job_id st error_message now (sub_jobs s)
      in case find (\<lambda>r. sj_id r = sub_job_id) rows of
           None \<Rightarrow> s1
         | Some r \<Rightarrow>
             (let parent = sj_parent_job_id r;
                  n_total = count_total parent rows;
                  n_completed = count_completed parent rows;
                  js1 = set_job_progress parent (progress_of n_completed n_total) (jobs s);
                  js2 = (if n_completed = n_total then mark_job_completed parent now js1 else js1);
                  counter = (case cache_optimization_counter s of None \<Rightarrow> 1 | Some n \<Rightarrow> n + 1);
                  s2 = s1\<lparr>jobs := js2, sub_jobs := rows, cache_optimization_counter := Some counter\<rparr>
              in if counter mod 50 = 0 then optimize_cache now s2 else s2))"

subsection \<open>Pausing\<close>



section \<open>The completion route: \<open>server.py\<close>\<close>




section \<open>Render timeouts: \<open>worker_node.py\<close>\<close>

text \<open>
  The configuration of \<open>load_config\<close>, lines 89 to 116: \<open>timeout_per_frame\<close> is read with
  \<open>config.get('timeout_per_frame', 1800)\<close>; each renderer entry carries a
  \<open>timeout_multiplier\<close>.
\<close>

record worker_config =
  timeout_per_frame :: "int option"
  nuke_timeout_multiplier :: real
  silhouette_timeout_multiplier :: real
  fusion_timeout_multiplier :: real

definition default_config :: worker_config where
  "default_config = \<lparr>timeout_per_frame = Some 1800, nuke_timeout_multiplier = 1,
     silhouette_timeout_multiplier = 3 / 2, fusion_timeout_multiplier = 2\<rparr>"

definition get_timeout_per_frame :: "worker_config \<Rightarrow> int" where
  "get_timeout_per_frame cfg = (case timeout_per_frame cfg of None \<Rightarrow> 1800 | Some t \<Rightarrow> t)"

text \<open>Lines 572 to 575 and 645 to 646 of \<open>render_nuke_production\<close>.\<close>

definition render_nuke_timeout :: "worker_config \<Rightarrow> string \<Rightarrow> py_error + int" where
  "render_nuke_timeout cfg frame_range =
     (if CHR ''-'' \<in> set frame_range then
        (case split_on CHR ''-'' frame_range of
           [start_frame, end_frame] \<Rightarrow>
             (case py_int end_frame of
                Inl e \<Rightarrow> Inl e
              | Inr stop \<Rightarrow>
                  (case py_int start_frame of
                     Inl e \<Rightarrow> Inl e
                   | Inr start \<Rightarrow> Inr ((stop - start + 1) * get_timeout_per_frame cfg)))
         | _ \<Rightarrow> Inl ValueError)
      else Inr (1 * get_timeout_per_frame cfg))"

text \<open>Lines 735 to 737 of \<open>render_silhouette_production\<close>.\<close>

definition render_silhouette_timeout :: "worker_config \<Rightarrow> string \<Rightarrow> int" where
  "render_silhouette_timeout cfg frame_range =
     (let frame_count = (if CHR ''-'' \<in> set frame_range
                         then int (length (split_on CHR ''-'' frame_range)) else 1)
      in frame_count * get_timeout_per_frame cfg)"

section \<open>Sequences of completion reports\<close>




section \<open>Scenarios\<close>

text \<open>
  Two jobs of one batch each: \<open>J1\<close> critical, submitted at second 1, and \<open>J2\<close> normal,
  submitted at second 2.
\<close>

definition two_jobs :: queue_manager where
  "two_jobs =
     create_sub_jobs ''J2'' [''1-3'']
       (submit_job ''J2'' ''{}'' (Some ''normal'') 2
         (create_sub_jobs ''J1'' [''1-3'']
           (submit_job ''J1'' ''{}'' (Some ''critical'') 1 init_manager)))"

text \<open>One normal Job \<open>J1\<close> of two batches, as submitted, and after worker A and then worker B
  have each pulled once (A from the database, B from the cache).\<close>

definition two_batches :: queue_manager where
  "two_batches =
     create_sub_jobs ''J1'' [''1-2'', ''3-4''] (submit_job ''J1'' ''{}'' None 1 init_manager)"

definition two_batches_pulled :: queue_manager where
  "two_batches_pulled = snd (get_next_job ''B'' 6 (snd (get_next_job ''A'' 5 two_batches)))"

text \<open>
  A high Job \<open>J1\<close> and a normal Job \<open>J2\<close> of one batch each; worker A pulls once (from
  the database, which prefetches the batch of \<open>J2\<close> into the cache); then a critical
  Job \<open>J3\<close> of two batches is submitted.
\<close>

definition high_and_normal :: queue_manager where
  "high_and_normal =
     create_sub_jobs ''J2'' [''1-3'']
       (submit_job ''J2'' ''{}'' (Some ''normal'') 2
         (create_sub_jobs ''J1'' [''1-3'']
           (submit_job ''J1'' ''{}'' (Some ''high'') 1 init_manager)))"

definition late_critical :: queue_manager where
  "late_critical =
     create_sub_jobs ''J3'' [''1-3'', ''4-6'']
       (submit_job ''J3'' ''{}'' (Some ''critical'') 6
         (snd (get_next_job ''A'' 5 high_and_normal)))"

section \<open>Properties\<close>

lemma sort_listing_unique:
  "set_listing frames ys \<Longrightarrow> sort ys = sort (remdups frames)"
  unfolding set_listing_def
  by (metis distinct_remdups set_remdups sorted_distinct_set_unique sorted_sort
      distinct_sort set_sort)

subsection \<open>Batching\<close>

text \<open>
  C1. The claim: for every legal frame range and batch size at least 1 the batches are
  contiguous runs whose union is the parsed frame set, a gap starting a new run, so
  that \<open>"1-5,8,10-12"\<close> with batch size 3 gives \<open>"1-3", "4-5", "8", "10-12"\<close>. The code
  cuts the sorted frame list every \<open>batch_size\<close> elements and labels each piece by its
  first and last frame: on that input it returns three batches, and the label
  \<open>"4-8"\<close> of the piece \<open>[4, 5, 8]\<close> is read back by \<open>parse_frame_range\<close> as the frames
  4 to 8, two of which (6 and 7) were never asked for.
\<close>

theorem create_batches_ignores_gaps:
  "process_job_batches ''1-5,8,10-12'' 3 = Inr [''1-3'', ''4-8'', ''10-12'']
   \<and> process_job_batches ''1-5,8,10-12'' 3 \<noteq> Inr [''1-3'', ''4-5'', ''8'', ''10-12'']
   \<and> parse_frame_range ''1-5,8,10-12'' = Inr [1, 2, 3, 4, 5, 8, 10, 11, 12]
   \<and> parse_frame_range ''4-8'' = Inr [4, 5, 6, 7, 8]"
  by code_simp

text \<open>
  C9. Batching is deterministic: two runs on the same frame range and batch size give
  the same batch sequence, in content and order, whatever order each run's
  \<open>list(set(frames))\<close> lists the set in.
\<close>

theorem batching_deterministic:
  assumes "\<forall>frames. set_listing frames (listing1 frames)"
      and "\<forall>frames. set_listing frames (listing2 frames)"
  shows "process_job_batches_with listing1 frame_range batch_size
       = process_job_batches_with listing2 frame_range batch_size"
proof -
  have "sort (listing1 frames) = sort (listing2 frames)" for frames
    using assms sort_listing_unique by metis
  then show ?thesis
    by (simp add: process_job_batches_with_def parse_frame_range_with_def split: sum.splits)
qed

theorem batching_deterministic_witness:
  "process_job_batches_with remdups ''3,1-2,2,7'' 2
     = process_job_batches_with (\<lambda>frames. rev (remdups frames)) ''3,1-2,2,7'' 2
   \<and> process_job_batches_with remdups ''3,1-2,2,7'' 2 = Inr [''1-2'', ''3-7'']"
proof -
  have l1: "\<forall>frames. set_listing frames (remdups frames)"
    by (simp add: set_listing_def)
  have l2: "\<forall>frames. set_listing frames (rev (remdups frames))"
    by (simp add: set_listing_def)
  have "process_job_batches_with remdups ''3,1-2,2,7'' 2 = Inr [''1-2'', ''3-7'']"
    by code_simp
  with batching_deterministic [OF l1 l2, of "''3,1-2,2,7''" 2] show ?thesis
    by simp
qed

subsection \<open>Pulling\<close>

text \<open>
  C2. The claim: a pull served from the ready cache still claims the SubJob through
  the store, so no SubJob is handed to two workers. In \<open>two_jobs\<close> worker A's pull reads
  the database, takes \<open>J1_batch_001\<close> and caches \<open>J2_batch_001\<close>; worker B's pull is
  served from the cache and leaves the stored row of \<open>J2_batch_001\<close> pending with no
  worker; worker C's pull finds the cache without a pending entry, reads the
  database and is handed \<open>J2_batch_001\<close> again.
\<close>

theorem cached_pull_leaves_store_pending:
  "(let (a, s1) = get_next_job ''A'' 5 two_jobs;
        (b, s2) = get_next_job ''B'' 6 s1;
        (c, s3) = get_next_job ''C'' 7 s2
    in map_option pulled_sub_job_id a = Some ''J1_batch_001''
     \<and> map_option pulled_sub_job_id b = Some ''J2_batch_001''
     \<and> map sj_status (sub_jobs s2) = [Running, Pending]
     \<and> map sj_worker_id (sub_jobs s2) = [Some ''A'', None]
     \<and> map_option pulled_sub_job_id c = Some ''J2_batch_001''
     \<and> map sj_worker_id (sub_jobs s3) = [Some ''A'', Some ''C''])"
  by code_simp

lemma get_next_job_miss:
  assumes miss: "(if cache_enabled s then get_job_from_cache w now (job_cache s) else None) = None"
  shows "fst (get_next_job w now s)
         = (case sort_key fst (pending_candidates s) of
              [] \<Rightarrow> None
            | c # _ \<Rightarrow> Some (FromStore (snd c)))"
  using miss
  by (simp add: get_next_job_def select_pending_def Let_def split: list.splits)

lemma sort_key_head:
  assumes "sort_key f xs = c # rest"
  shows "c \<in> set xs" and "\<forall>c'\<in>set xs. f c \<le> f c'"
    and "c = hd (filter (\<lambda>c'. f c' = f c) xs)"
proof -
  have "set (sort_key f xs) = set xs" by simp
  with assms show "c \<in> set xs" by auto
  have "sorted (map f (sort_key f xs))" by (rule sorted_sort_key)
  with assms have "\<forall>c'\<in>set (c # rest). f c \<le> f c'"
    by auto
  with assms show "\<forall>c'\<in>set xs. f c \<le> f c'"
    by (metis set_sort)
  have "filter (\<lambda>c'. f c' = f c) xs = filter (\<lambda>c'. f c' = f c) (sort_key f xs)"
    by (simp add: sort_key_stable)
  also have "\<dots> = c # filter (\<lambda>c'. f c' = f c) rest"
    by (simp add: assms)
  finally show "c = hd (filter (\<lambda>c'. f c' = f c) xs)"
    by simp
qed

text \<open>
  C5 (amended). A \<open>get_next_job\<close> call that is not served from the ready cache returns
  nothing when no SubJob is pending, and otherwise selects the pending SubJob that is
  first in the order: Job priority critical, high, normal, low, then any other value;
  then the parent Job's \<open>created_at\<close>, ascending; and among SubJobs equal in both, the one
  stored first (the query has no batch-index key).
\<close>

theorem get_next_job_store_order:
  assumes miss: "(if cache_enabled s then get_job_from_cache w now (job_cache s) else None) = None"
  shows "(pending_candidates s = [] \<longrightarrow> fst (get_next_job w now s) = None)
       \<and> (pending_candidates s \<noteq> [] \<longrightarrow>
            (\<exists>c\<in>set (pending_candidates s).
               fst (get_next_job w now s) = Some (FromStore (snd c))
               \<and> (\<forall>c'\<in>set (pending_candidates s). fst c \<le> fst c')
               \<and> c = hd (filter (\<lambda>c'. fst c' = fst c) (pending_candidates s))))"
proof (cases "sort_key fst (pending_candidates s)")
  case Nil
  then have "length (pending_candidates s) = 0"
    by (metis length_sort list.size(3))
  then show ?thesis
    by (simp add: get_next_job_miss [OF miss] Nil)
next
  case (Cons c rest)
  from sort_key_head [OF Cons] get_next_job_miss [OF miss] Cons
  show ?thesis by auto
qed


theorem get_next_job_store_order_witness:
  "map_option pulled_sub_job_id (fst (get_next_job ''A'' 5 high_and_normal)) = Some ''J1_batch_001''
   \<and> map fst (pending_candidates high_and_normal) = [(2, 1), (3, 2)]
   \<and> (\<exists>c\<in>set (pending_candidates high_and_normal).
         fst (get_next_job ''A'' 5 high_and_normal) = Some (FromStore (snd c))
         \<and> (\<forall>c'\<in>set (pending_candidates high_and_normal). fst c \<le> fst c')
         \<and> c = hd (filter (\<lambda>c'. fst c' = fst c) (pending_candidates high_and_normal)))"
proof -
  have miss: "(if cache_enabled high_and_normal
               then get_job_from_cache ''A'' 5 (job_cache high_and_normal) else None) = None"
    by code_simp
  have keys: "map fst (pending_candidates high_and_normal) = [(2, 1), (3, 2)]"
    by code_simp
  then have ne: "pending_candidates high_and_normal \<noteq> []"
    by auto
  have first: "map_option pulled_sub_job_id (fst (get_next_job ''A'' 5 high_and_normal))
               = Some ''J1_batch_001''"
    by code_simp
  from get_next_job_store_order [OF miss] ne keys first show ?thesis
    by blast
qed

text \<open>
  The claim as stated fails for a pull served from the cache: in \<open>late_critical\<close> the
  two batches of the critical Job \<open>J3\<close> are pending and come first in the order, and
  worker B's pull is handed the prefetched batch of the normal Job \<open>J2\<close>.
\<close>

theorem cached_batch_overtakes_critical:
  "map (\<lambda>c. (fst c, d_sub_job_id (snd c))) (pending_candidates late_critical)
     = [((3, 2), ''J2_batch_001''), ((1, 6), ''J3_batch_001''), ((1, 6), ''J3_batch_002'')]
   \<and> map_option pulled_sub_job_id (fst (get_next_job ''B'' 7 late_critical)) = Some ''J2_batch_001''
   \<and> ((1 :: nat, 6 :: nat) < (3, 2))"
proof -
  have a: "map (\<lambda>c. (fst c, d_sub_job_id (snd c))) (pending_candidates late_critical)
     = [((3, 2), ''J2_batch_001''), ((1, 6), ''J3_batch_001''), ((1, 6), ''J3_batch_002'')]"
    by code_simp
  have b: "map_option pulled_sub_job_id (fst (get_next_job ''B'' 7 late_critical)) = Some ''J2_batch_001''"
    by code_simp
  have c: "((1 :: nat, 6 :: nat) < (3, 2))"
    by simp
  from a b c show ?thesis by blast
qed

subsection \<open>Render timeouts\<close>

text \<open>
  C8. The claim: the subprocess timeout is the number of frames of the SubJob times
  \<open>timeout_per_frame\<close> times the renderer's configured multiplier. No timeout reads a
  multiplier, and the Silhouette path counts the pieces of \<open>frame_range.split('-')\<close>
  instead of the frames: for the ten frames \<open>"1-10"\<close> under the default configuration
  it allows 3600 seconds where the claim gives 27000, and the Nuke path allows the
  same 18000 seconds whatever its multiplier is set to.
\<close>

theorem timeouts_ignore_multiplier:
  "render_silhouette_timeout default_config ''1-10'' = 3600
   \<and> real_of_int (render_silhouette_timeout default_config ''1-10'')
       \<noteq> 10 * 1800 * silhouette_timeout_multiplier default_config
   \<and> render_nuke_timeout (default_config\<lparr>nuke_timeout_multiplier := 2\<rparr>) ''1-10'' = Inr 18000
   \<and> render_nuke_timeout default_config ''1-10'' = Inr 18000"
proof -
  have a: "render_silhouette_timeout default_config ''1-10'' = 3600"
    by code_simp
  have b: "render_nuke_timeout (default_config\<lparr>nuke_timeout_multiplier := 2\<rparr>) ''1-10'' = Inr 18000"
    by code_simp
  have c: "render_nuke_timeout default_config ''1-10'' = Inr 18000"
    by code_simp
  have d: "silhouette_timeout_multiplier default_config = 3 / 2"
    by (simp add: default_config_def)
  show ?thesis
    unfolding a b c d by simp
qed

subsection \<open>Pausing\<close>









subsection \<open>Reporting\<close>

lemma jobs_optimize_cache: "jobs (optimize_cache now s) = jobs s"
  by (simp add: optimize_cache_def)

lemma sub_jobs_optimize_cache: "sub_jobs (optimize_cache now s) = sub_jobs s"
  by (simp add: optimize_cache_def)

lemma find_set_sub_job_status:
  "find (\<lambda>r. sj_id r = sid) (set_sub_job_status sid st em now rows)
   = map_option (\<lambda>r. r\<lparr>sj_status := st, sj_completed_at := Some now, sj_error_message := em\<rparr>)
       (find (\<lambda>r. sj_id r = sid) rows)"
  by (induction rows) (auto simp: set_sub_job_status_def)


lemma complete_sub_job_known:
  assumes "find (\<lambda>r. sj_id r = sid) (sub_jobs s) = Some r"
  shows "sub_jobs (complete_sub_job sid ok em now s)
         = set_sub_job_status sid (if ok then Completed else Failed) em now (sub_jobs s)"
    and "jobs (complete_sub_job sid ok em now s)
         = (let rows = set_sub_job_status sid (if ok then Completed else Failed) em now (sub_jobs s);
                p = sj_parent_job_id r;
                js1 = set_job_progress p (progress_of (count_completed p rows) (count_total p rows)) (jobs s)
            in if count_completed p rows = count_total p rows then mark_job_completed p now js1 else js1)"
  using assms
  by (simp_all add: complete_sub_job_def Let_def find_set_sub_job_status
      jobs_optimize_cache sub_jobs_optimize_cache)

lemma count_completed_eq_total:
  "count_completed p rows = count_total p rows
   \<longleftrightarrow> (\<forall>x\<in>set rows. sj_parent_job_id x = p \<longrightarrow> sj_status x = Completed)"
proof (induction rows)
  case Nil
  then show ?case by (simp add: count_completed_def count_total_def)
next
  case (Cons a rows)
  have le: "count_completed p rows \<le> count_total p rows"
    unfolding count_completed_def count_total_def
    by (induction rows) auto
  show ?case
    using Cons le by (auto simp: count_completed_def count_total_def)
qed

lemma job_status_set_job_progress:
  "map job_status (set_job_progress p v js) = map job_status js"
  by (simp add: set_job_progress_def comp_def if_distrib)

text \<open>
  C3 (amended). After a \<open>complete_sub_job\<close> call on a SubJob of the store, the parent
  Job's status is set to completed exactly when all SubJobs of the parent are then
  completed; in every other case, also when all of them are terminal and one has
  failed, the call leaves the parent's status as it was. No code path sets a Job to
  failed.
\<close>

theorem complete_sub_job_parent_status:
  assumes "find (\<lambda>r. sj_id r = sid) (sub_jobs s) = Some r"
  shows "map job_status (jobs (complete_sub_job sid ok em now s))
       = map (\<lambda>j. if job_id j = sj_parent_job_id r
                      \<and> (\<forall>x\<in>set (sub_jobs (complete_sub_job sid ok em now s)).
                            sj_parent_job_id x = sj_parent_job_id r \<longrightarrow> sj_status x = Completed)
                   then Completed else job_status j) (jobs s)"
proof -
  let ?rows = "set_sub_job_status sid (if ok then Completed else Failed) em now (sub_jobs s)"
  let ?p = "sj_parent_job_id r"
  have rows: "sub_jobs (complete_sub_job sid ok em now s) = ?rows"
    using assms by (rule complete_sub_job_known)
  have key: "(\<forall>x\<in>set ?rows. sj_parent_job_id x = ?p \<longrightarrow> sj_status x = Completed)
             = (count_completed ?p ?rows = count_total ?p ?rows)"
    by (simp only: count_completed_eq_total)
  show ?thesis
    unfolding rows key complete_sub_job_known(2)[OF assms]
  proof (cases "count_completed ?p ?rows = count_total ?p ?rows")
    case True
    then show "map job_status
       (let rows = ?rows; p = ?p;
            js1 = set_job_progress p (progress_of (count_completed p rows) (count_total p rows)) (jobs s)
        in if count_completed p rows = count_total p rows then mark_job_completed p now js1 else js1)
      = map (\<lambda>j. if job_id j = ?p \<and> count_completed ?p ?rows = count_total ?p ?rows
                  then Completed else job_status j) (jobs s)"
      by (simp add: Let_def mark_job_completed_def set_job_progress_def comp_def)
  next
    case False
    then show "map job_status
       (let rows = ?rows; p = ?p;
            js1 = set_job_progress p (progress_of (count_completed p rows) (count_total p rows)) (jobs s)
        in if count_completed p rows = count_total p rows then mark_job_completed p now js1 else js1)
      = map (\<lambda>j. if job_id j = ?p \<and> count_completed ?p ?rows = count_total ?p ?rows
                  then Completed else job_status j) (jobs s)"
      by (simp add: Let_def job_status_set_job_progress)
  qed
qed


theorem complete_sub_job_parent_status_witness:
  "map job_status
     (jobs (complete_sub_job ''J1_batch_002'' True None 9
              (complete_sub_job ''J1_batch_001'' True None 8 two_batches_pulled)))
   = [Completed]"
proof -
  let ?s1 = "complete_sub_job ''J1_batch_001'' True None 8 two_batches_pulled"
  have f: "find (\<lambda>r. sj_id r = ''J1_batch_002'') (sub_jobs ?s1) = Some (new_sub_job ''J1'' 1 ''3-4'')"
    by code_simp
  have "map (\<lambda>j. if job_id j = sj_parent_job_id (new_sub_job ''J1'' 1 ''3-4'')
                      \<and> (\<forall>x\<in>set (sub_jobs (complete_sub_job ''J1_batch_002'' True None 9 ?s1)).
                            sj_parent_job_id x = sj_parent_job_id (new_sub_job ''J1'' 1 ''3-4'')
                            \<longrightarrow> sj_status x = Completed)
                   then Completed else job_status j) (jobs ?s1) = [Completed]"
    by code_simp
  with complete_sub_job_parent_status [OF f, of True None 9] show ?thesis
    by simp
qed

text \<open>
  The claim as stated fails: in \<open>two_batches_pulled\<close> the first batch is reported as
  rendered and the second as failed. Both SubJobs are then terminal, one of them
  failed, and the Job is still running.
\<close>

theorem failed_batch_leaves_job_running:
  "map sj_status
     (sub_jobs (complete_sub_job ''J1_batch_002'' False (Some ''exit 1'') 9
                  (complete_sub_job ''J1_batch_001'' True None 8 two_batches_pulled)))
     = [Completed, Failed]
   \<and> map job_status
     (jobs (complete_sub_job ''J1_batch_002'' False (Some ''exit 1'') 9
              (complete_sub_job ''J1_batch_001'' True None 8 two_batches_pulled)))
     = [Running]
   \<and> Running \<noteq> Failed"
  by code_simp









lemma job_fields_after_progress:
  "map job_id (set_job_progress p v js) = map job_id js"
  "map job_id (mark_job_completed p now js) = map job_id js"
  "map job_progress (mark_job_completed p now js) = map job_progress js"
  by (simp_all add: set_job_progress_def mark_job_completed_def comp_def if_distrib)





















end
